theory Spec2Isabelle
  imports Main "HOL-Library.AList" "HOL-Library.Sublist"
begin

chapter \<open>The model\<close>

text \<open>
  A shallow embedding of the core of the statechart engine: the functions of utils.ts
  (state values, paths, \<open>matchesState\<close>, history values, \<open>updateContext\<close>,
  \<open>getEventType\<close>) and of actions.ts (the action and event builders), and, written from
  the specification, the transition function and the interpreter that use them. The
  definitions come first; the theorems about them follow in the second chapter.
\<close>

section \<open>State values and the path algebra (utils.ts)\<close>

text \<open>
  A \<open>StateValue\<close> of the source is \<open>string | StateValueMap\<close>, where a
  \<open>StateValueMap\<close> is a plain object from region keys to state values.
  A plain object is modelled by the list of its own enumerable properties in the
  order \<open>Object.keys\<close> lists them; a write to a key that is present keeps the key's
  position, a write to a new key appends it (\<open>AList.update\<close>), and reading a key is
  \<open>map_of\<close>. Inherited properties of \<open>Object.prototype\<close> are outside the model:
  region keys are taken not to collide with them.
\<close>

datatype StateValue = SVString string | SVMap "(string \<times> StateValue) list"


text \<open>
  \<open>toStatePaths\<close>: a falsy value (here the empty string; \<open>undefined\<close> is not a
  \<open>StateValue\<close>) gives \<open>[[]]\<close>, a string the single one-element path, a map the
  concatenation over its keys, where a key bound to an empty object contributes the
  path \<open>[key]\<close>.
\<close>

fun toStatePaths :: "StateValue \<Rightarrow> string list list" where
  "toStatePaths (SVString s) = (if s = [] then [[]] else [[s]])"
| "toStatePaths (SVMap m) =
     concat (map (\<lambda>(key, subStateValue).
        (case subStateValue of
           SVMap [] \<Rightarrow> [[key]]
         | _ \<Rightarrow> map (\<lambda>subPath. key # subPath) (toStatePaths subStateValue))) m)"





section \<open>Dotted strings, \<open>toStateValue\<close> and \<open>matchesState\<close> (utils.ts)\<close>




















section \<open>History values (utils.ts)\<close>

text \<open>
  A \<open>HistoryValue\<close> is \<open>{current: StateValue | undefined, states: Record<string,
  HistoryValue | undefined>}\<close>: the remembered value of a node and, per child key,
  the history of that child (or \<open>undefined\<close>, here \<open>None\<close>).
\<close>

datatype HistoryValue =
  HistoryValue (current: "StateValue option") (states: "(string \<times> HistoryValue option) list")




section \<open>JavaScript values and event types (utils.ts)\<close>

text \<open>
  The values events, contexts and log messages are made of. A number is an integer
  (the delays, counters and ids of the sources are; a template literal prints such a
  number in decimal); an object is the list of its own properties, as above.
\<close>

datatype jsval =
    JUndefined | JNull | JBool bool | JNumber int | JString string
  | JObject "(string \<times> jsval) list"

fun js_truthy :: "jsval \<Rightarrow> bool" where
  "js_truthy JUndefined = False"
| "js_truthy JNull = False"
| "js_truthy (JBool b) = b"
| "js_truthy (JNumber n) = (n \<noteq> 0)"
| "js_truthy (JString s) = (s \<noteq> [])"
| "js_truthy (JObject kvs) = True"

fun digitsOf :: "nat \<Rightarrow> string" where
  "digitsOf n = (if n < 10 then [''0123456789'' ! n]
                 else digitsOf (n div 10) @ [''0123456789'' ! (n mod 10)])"

declare digitsOf.simps [simp del]

definition numberToString :: "int \<Rightarrow> string" where
  "numberToString i = (if i < 0 then ''-'' @ digitsOf (nat (- i)) else digitsOf (nat i))"

datatype js_error = Error string | TypeError string

text \<open>
  Reading a property: \<open>undefined\<close> and \<open>null\<close> throw a \<open>TypeError\<close>; an object
  gives the property or \<open>undefined\<close>; the primitives have no own property.
\<close>

fun getProp :: "jsval \<Rightarrow> string \<Rightarrow> js_error + jsval" where
  "getProp JUndefined key = Inl (TypeError ''Cannot read properties of undefined'')"
| "getProp JNull key = Inl (TypeError ''Cannot read properties of null'')"
| "getProp (JObject kvs) key = Inr (case map_of kvs key of None \<Rightarrow> JUndefined | Some v \<Rightarrow> v)"
| "getProp v key = Inr JUndefined"

text \<open>
  \<open>getEventType\<close>: a string is returned as it is, a number is printed, of anything
  else the property \<open>type\<close> is read, and whatever that read throws is replaced by the
  error of the \<open>catch\<close> block.
\<close>

definition getEventType :: "jsval \<Rightarrow> js_error + jsval" where
  "getEventType event =
     (case event of
        JString s \<Rightarrow> Inr (JString s)
      | JNumber n \<Rightarrow> Inr (JString (numberToString n))
      | _ \<Rightarrow>
          (case getProp event ''type'' of
             Inl e \<Rightarrow> Inl (Error ''Events must be strings or objects with a string event.type property.'')
           | Inr t \<Rightarrow> Inr t))"

text \<open>The claim's inputs with an event type: a string, or an object whose \<open>type\<close>
  property is a string.\<close>

fun hasStringType :: "jsval \<Rightarrow> bool" where
  "hasStringType (JString s) = True"
| "hasStringType (JObject kvs) = (case map_of kvs ''type'' of Some (JString t) \<Rightarrow> True | _ \<Rightarrow> False)"
| "hasStringType v = False"

section \<open>Action and event builders (actions.ts)\<close>

text \<open>
  A context is a plain object. A field of an action that is either a value or a
  function of the context and the event is an \<open>Expr\<close>; a function carries its
  \<open>name\<close>. (The third argument \<open>meta\<close> of the source's expressions is left out.)
\<close>

type_synonym TContext = "(string \<times> jsval) list"

datatype 'a Expr = Static 'a | Dynamic string "TContext \<Rightarrow> jsval \<Rightarrow> 'a"

text \<open>Modelled from the spec: \<open>ActionTypes.Init\<close> (types.ts is not among the
  sources), the type of the init event, \<open>xstate.init\<close>.\<close>

definition ActionTypes_Init :: string where
  "ActionTypes_Init = ''xstate.init''"

text \<open>Modelled from the spec: \<open>ActionTypes.DoneState\<close>, the prefix of
  \<open>done.state.<id>\<close>.\<close>

definition ActionTypes_DoneState :: string where
  "ActionTypes_DoneState = ''done.state''"

text \<open>Modelled from the spec: \<open>ActionTypes.After\<close>, the prefix of
  \<open>xstate.after(N)\<close>.\<close>

definition ActionTypes_After :: string where
  "ActionTypes_After = ''xstate.after''"

text \<open>\<open>initEvent\<close> of actions.ts.\<close>

definition initEvent :: jsval where
  "initEvent = JObject [(''type'', JString ActionTypes_Init)]"

text \<open>Modelled from the spec: \<open>toEventObject\<close> of utils.ts, which the sources import
  but do not hold: an event descriptor is a string type or a record with a \<open>type\<close>;
  a string (or number) becomes the record with that type.\<close>

fun toEventObject :: "jsval \<Rightarrow> jsval" where
  "toEventObject (JString s) = JObject [(''type'', JString s)]"
| "toEventObject (JNumber n) = JObject [(''type'', JNumber n)]"
| "toEventObject event = event"

text \<open>
  \<open>send\<close>. The options and the action share \<open>to\<close>, \<open>delay\<close> and \<open>id\<close>
  (\<open>JUndefined\<close> when not given); the action adds the \<open>event\<close>. Its \<open>type\<close> is the
  constructor \<open>Send\<close> of \<open>ActionObject\<close> below. The id is the option's when that is
  not \<open>undefined\<close>, else the name of an event function, else \<open>getEventType event\<close>,
  which may throw.
\<close>

record SendActionOptions =
  to :: "jsval Expr"
  delay :: "jsval Expr"
  id' :: jsval

record SendAction = SendActionOptions +
  event :: "jsval Expr"

definition send :: "jsval Expr \<Rightarrow> SendActionOptions option \<Rightarrow> js_error + SendAction" where
  "send ev options =
     (case (if options \<noteq> None \<and> id' (the options) \<noteq> JUndefined then Inr (id' (the options))
            else (case ev of
                    Dynamic name f \<Rightarrow> Inr (JString name)
                  | Static e \<Rightarrow> getEventType e)) of
        Inl err \<Rightarrow> Inl err
      | Inr ident \<Rightarrow>
          Inr \<lparr> to = (case options of Some opts \<Rightarrow> to opts | None \<Rightarrow> Static JUndefined),
                delay = (case options of Some opts \<Rightarrow> delay opts | None \<Rightarrow> Static JUndefined),
                id' = ident,
                event = (case ev of Dynamic name f \<Rightarrow> Dynamic name f
                                  | Static e \<Rightarrow> Static (toEventObject e)) \<rparr>)"

fun evalExpr :: "'a Expr \<Rightarrow> TContext \<Rightarrow> jsval \<Rightarrow> 'a" where
  "evalExpr (Static v) ctx e = v"
| "evalExpr (Dynamic name f) ctx e = f ctx e"

definition resolveSend :: "SendAction \<Rightarrow> TContext \<Rightarrow> jsval \<Rightarrow> SendAction" where
  "resolveSend action ctx e =
     action \<lparr> to := Static (evalExpr (to action) ctx e),
              event := Static (evalExpr (event action) ctx e),
              delay := Static (evalExpr (delay action) ctx e) \<rparr>"

record CancelAction =
  sendId :: jsval

definition cancel :: "jsval \<Rightarrow> CancelAction" where
  "cancel sid = \<lparr> sendId = sid \<rparr>"

text \<open>\<open>log\<close>: the default expression returns \<open>{context, event}\<close>.\<close>

record LogAction =
  label :: "string option"
  expr :: "TContext \<Rightarrow> jsval \<Rightarrow> jsval"

definition log :: "(TContext \<Rightarrow> jsval \<Rightarrow> jsval) option \<Rightarrow> string option \<Rightarrow> LogAction" where
  "log ex lbl =
     \<lparr> label = lbl,
       expr = (case ex of
                 Some f \<Rightarrow> f
               | None \<Rightarrow> (\<lambda>ctx e. JObject [(''context'', JObject ctx), (''event'', e)])) \<rparr>"

text \<open>\<open>assign\<close>: the assignment is a function of the whole context that returns a
  partial context, or an object of per-key assigners, each a function or a value.\<close>

datatype PropAssigner = PropFn "TContext \<Rightarrow> jsval \<Rightarrow> jsval" | PropValue jsval

datatype Assignment =
    Assigner "TContext \<Rightarrow> jsval \<Rightarrow> TContext"
  | PropertyAssigner "(string \<times> PropAssigner) list"

record AssignAction =
  assignment :: Assignment

definition assign :: "Assignment \<Rightarrow> AssignAction" where
  "assign a = \<lparr> assignment = a \<rparr>"

text \<open>The action objects; the \<open>type\<close> property of the source is the constructor.
  \<open>Start\<close> and \<open>Stop\<close> carry the id of their activity; \<open>Custom\<close> stands for
  the named, pure and invoke actions, which no claim inspects.\<close>

datatype ActionObject =
    Raise jsval
  | Send SendAction
  | Cancel CancelAction
  | Log LogAction
  | Assign AssignAction
  | Start string
  | Stop string
  | Custom string

definition raise :: "jsval \<Rightarrow> ActionObject" where
  "raise ev = Raise ev"

text \<open>\<open>after\<close>: the delay is a number or a string; an id that is \<open>undefined\<close> or
  empty is falsy and adds no suffix.\<close>

datatype DelayRef = DelayMs int | DelayName string

fun delayToString :: "DelayRef \<Rightarrow> string" where
  "delayToString (DelayMs n) = numberToString n"
| "delayToString (DelayName s) = s"

definition after :: "DelayRef \<Rightarrow> string option \<Rightarrow> string" where
  "after delayRef ident =
     (let idSuffix = (case ident of
                        None \<Rightarrow> ''''
                      | Some i \<Rightarrow> if i = [] then '''' else ''#'' @ i)
      in ActionTypes_After @ ''('' @ delayToString delayRef @ '')'' @ idSuffix)"

text \<open>\<open>done\<close> (a command name of the prover, hence \<open>done_event\<close>).\<close>

record DoneEventObject =
  type :: string
  data :: jsval
  toString :: "unit \<Rightarrow> string"

definition done_event :: "string \<Rightarrow> jsval \<Rightarrow> DoneEventObject" where
  "done_event ident d =
     (let ty = ActionTypes_DoneState @ ''.'' @ ident
      in \<lparr> type = ty, data = d, toString = (\<lambda>_. ty) \<rparr>)"

section \<open>Context and assignment (utils.ts)\<close>

text \<open>\<open>Object.assign({}, acc, partialUpdate)\<close>: the properties of \<open>acc\<close>, then those
  of the update written over them in the update's order.\<close>

definition objectAssign :: "TContext \<Rightarrow> TContext \<Rightarrow> TContext" where
  "objectAssign acc partialUpdate = fold (\<lambda>(key, v) target. AList.update key v target) partialUpdate acc"

text \<open>
  The partial update of one assign action. An assigner function is called with the
  accumulator and \<open>event || {type: ActionTypes.Init}\<close>; a property assigner is
  called with the accumulator and the event as it is, and a literal is taken as it is.
\<close>

definition partialUpdateOf :: "Assignment \<Rightarrow> TContext \<Rightarrow> jsval \<Rightarrow> TContext" where
  "partialUpdateOf a acc ev =
     (case a of
        Assigner f \<Rightarrow> f acc (if js_truthy ev then ev else initEvent)
      | PropertyAssigner props \<Rightarrow>
          fold (\<lambda>(key, propAssignment) partialUpdate.
                  AList.update key
                    (case propAssignment of PropFn g \<Rightarrow> g acc ev | PropValue v \<Rightarrow> v)
                    partialUpdate) props [])"

text \<open>\<open>updateContext\<close>: an undefined context (\<open>None\<close>) is returned as it is; otherwise
  \<open>reduce\<close> runs over the assign actions from the left, starting from the context.\<close>

definition updateContext :: "TContext option \<Rightarrow> jsval \<Rightarrow> AssignAction list \<Rightarrow> TContext option" where
  "updateContext ctx ev assignActions =
     (case ctx of
        None \<Rightarrow> None
      | Some c \<Rightarrow>
          Some (foldl (\<lambda>acc assignAction.
                  objectAssign acc (partialUpdateOf (assignment assignAction) acc ev))
                c assignActions))"

section \<open>The definition model, the transition function and the interpreter\<close>

text \<open>
  StateNode.ts, State.ts and interpreter.ts are not among the sources: this section
  is written from the specification (its sections 3, 4.4, 4.5 and 5), on top of the
  functions of utils.ts and actions.ts modelled above. User functions (guards,
  assigners, expressions) are total; a guard that throws is a guard that returns
  \<open>None\<close>.
\<close>

text \<open>Modelled from the spec: StateNode.ts is missing; (section 3) the kinds of a state node.\<close>

datatype NodeKind = Atomic | Compound | Parallel | Final | History

text \<open>Modelled from the spec: a normalized transition \<open>{target, actions, cond,
  internal}\<close> of StateNode.ts.\<close>

record TransitionDefinition =
  target :: "string list"
  actions :: "ActionObject list"
  cond :: "(TContext \<Rightarrow> jsval \<Rightarrow> bool option) option"
  internal :: bool

text \<open>Modelled from the spec: the state node of StateNode.ts: id, local key, kind,
  initial child key, children in document order, transition table keyed by event
  descriptor, eventless transitions, entry and exit actions, activities.\<close>

datatype StateNode =
  StateNode (nodeId: string) (key: string) (kind: NodeKind) (initial: "string option")
    (children: "StateNode list") (on: "(string \<times> TransitionDefinition list) list")
    (always: "TransitionDefinition list") (entry: "ActionObject list")
    (exit: "ActionObject list") (activities: "string list")

text \<open>Modelled from the spec: StateNode.ts is missing; an action of a configuration, resolved against the new
  context and the event: a log action has become the value to log, a send action has
  static fields.\<close>

datatype ResolvedAction = Plain ActionObject | LogValue "string option" jsval

text \<open>Modelled from the spec: the configuration of State.ts: value, context, the
  event that produced it, history, ordered actions, activity map and the changed
  flag (the names \<open>value\<close> and \<open>context\<close> are the prover's; the tree helper is left
  out).\<close>

record Configuration =
  value' :: StateValue
  context' :: TContext
  event' :: jsval
  history :: "HistoryValue option"
  actions' :: "ResolvedAction list"
  activities' :: "(string \<times> bool) list"
  changed :: bool

subsection \<open>The transition selector\<close>

text \<open>Modelled from the spec: StateNode.ts is missing; (section 4.4, step 1) the nodes from the root down a leaf path
  of the value; a key that names no child ends the walk.\<close>

fun nodesOnPath :: "StateNode \<Rightarrow> string list \<Rightarrow> StateNode list" where
  "nodesOnPath node [] = [node]"
| "nodesOnPath node (k # ks) =
     node # (case find (\<lambda>child. key child = k) (children node) of
               None \<Rightarrow> []
             | Some child \<Rightarrow> nodesOnPath child ks)"

text \<open>Modelled from the spec: StateNode.ts is missing; (section 4.4, step 2) the transitions a node offers for an event
  type: its table at the event type; if absent, at the wildcard.\<close>

definition candidates :: "string \<Rightarrow> StateNode \<Rightarrow> TransitionDefinition list" where
  "candidates eventType node =
     (case map_of (on node) eventType of
        Some ts \<Rightarrow> ts
      | None \<Rightarrow> (case map_of (on node) ''*'' of Some ts \<Rightarrow> ts | None \<Rightarrow> []))"

text \<open>Modelled from the spec: StateNode.ts is missing; (section 4.4, step 2, and guard failure in 7) a transition
  matches iff its guard is absent or returns true; a guard that throws counts as
  false.\<close>

definition guardHolds :: "TContext \<Rightarrow> jsval \<Rightarrow> TransitionDefinition \<Rightarrow> bool" where
  "guardHolds ctx ev t =
     (case cond t of
        None \<Rightarrow> True
      | Some g \<Rightarrow> (case g ctx ev of Some b \<Rightarrow> b | None \<Rightarrow> False))"

text \<open>Modelled from the spec: StateNode.ts is missing; (section 4.4, step 2) over the nodes of one region, leaf first,
  the first matching transition of the innermost node that has one.\<close>

fun selectRegion ::
  "(StateNode \<Rightarrow> TransitionDefinition list) \<Rightarrow> TContext \<Rightarrow> jsval \<Rightarrow> StateNode list
     \<Rightarrow> (StateNode \<times> TransitionDefinition) option" where
  "selectRegion offered ctx ev [] = None"
| "selectRegion offered ctx ev (node # ancestors) =
     (case find (guardHolds ctx ev) (offered node) of
        Some t \<Rightarrow> Some (node, t)
      | None \<Rightarrow> selectRegion offered ctx ev ancestors)"

text \<open>Modelled from the spec: StateNode.ts is missing; (section 4.4, step 3) a source node selected by several regions
  counts once.\<close>

fun uniqueSources ::
  "string list \<Rightarrow> (StateNode \<times> TransitionDefinition) list
     \<Rightarrow> (StateNode \<times> TransitionDefinition) list" where
  "uniqueSources seen [] = []"
| "uniqueSources seen ((node, t) # rest) =
     (if nodeId node \<in> set seen then uniqueSources seen rest
      else (node, t) # uniqueSources (nodeId node # seen) rest)"

text \<open>Modelled from the spec: StateNode.ts is missing; (section 4.4, steps 1 to 3) the selected transitions, one region
  per leaf path of the value, in the order of the paths.\<close>

definition selectWith ::
  "(StateNode \<Rightarrow> TransitionDefinition list) \<Rightarrow> StateNode \<Rightarrow> Configuration \<Rightarrow> jsval
     \<Rightarrow> (StateNode \<times> TransitionDefinition) list" where
  "selectWith offered machine c ev =
     uniqueSources []
       (List.map_filter
          (\<lambda>path. selectRegion offered (context' c) ev (rev (nodesOnPath machine path)))
          (toStatePaths (value' c)))"

text \<open>Modelled from the spec: StateNode.ts is missing; (section 4.4) the transitions selected for an event
  type.\<close>

definition selectTransitions ::
  "StateNode \<Rightarrow> Configuration \<Rightarrow> jsval \<Rightarrow> string \<Rightarrow> (StateNode \<times> TransitionDefinition) list" where
  "selectTransitions machine c ev eventType = selectWith (candidates eventType) machine c ev"

text \<open>Modelled from the spec: StateNode.ts is missing; (section 3) the enabled eventless (\<open>always\<close>)
  transitions, selected the same way.\<close>

definition enabledEventless ::
  "StateNode \<Rightarrow> Configuration \<Rightarrow> jsval \<Rightarrow> (StateNode \<times> TransitionDefinition) list" where
  "enabledEventless machine c ev = selectWith always machine c ev"

text \<open>Modelled from the spec: StateNode.ts is missing; (section 4.4, step 4) a transition with no target, or marked
  internal, is internal.\<close>

definition isInternal :: "TransitionDefinition \<Rightarrow> bool" where
  "isInternal t = (target t = [] \<or> internal t)"

subsection \<open>The configuration stepper\<close>

text \<open>Modelled from the spec: StateNode.ts is missing; (section 4.5, steps 1, 2, 6 and 7) what the external transitions
  of a step exit and enter: the exit set and the entry set in their orders, the next
  value, the updated history and the \<open>done.state\<close> events to raise. The function
  that computes it is a parameter of the stepper: no theorem below depends on
  it.\<close>

record Frontier =
  exited :: "StateNode list"
  entered :: "StateNode list"
  nextValue :: StateValue
  nextHistory :: "HistoryValue option"
  raised :: "jsval list"

text \<open>Modelled from the spec: StateNode.ts is missing; (section 4.5) the type of that parameter: from the
  machine, the prior configuration and the external transitions to the frontier.\<close>

type_synonym FrontierFn =
  "StateNode \<Rightarrow> Configuration \<Rightarrow> (StateNode \<times> TransitionDefinition) list \<Rightarrow> Frontier"

text \<open>Modelled from the spec: StateNode.ts is missing; (section 4.4, step 4) internal transitions exit and enter
  nothing.\<close>

definition frontierOf ::
  "FrontierFn \<Rightarrow> StateNode \<Rightarrow> Configuration \<Rightarrow> (StateNode \<times> TransitionDefinition) list
     \<Rightarrow> Frontier" where
  "frontierOf frontier machine c fired =
     (let externals = filter (\<lambda>(node, t). \<not> isInternal t) fired
      in if externals = []
         then \<lparr> exited = [], entered = [], nextValue = value' c, nextHistory = history c,
                raised = [] \<rparr>
         else frontier machine c externals)"

text \<open>Modelled from the spec: StateNode.ts is missing; (section 4.5, step 3, and step 7 for the raised events) exit
  actions, transition actions, entry actions, activity stops and starts, in that
  order.\<close>

definition collectActions ::
  "Frontier \<Rightarrow> (StateNode \<times> TransitionDefinition) list \<Rightarrow> ActionObject list" where
  "collectActions fr fired =
     concat (map exit (exited fr)) @
     concat (map (\<lambda>(node, t). actions t) fired) @
     concat (map entry (entered fr)) @
     map Stop (concat (map activities (exited fr))) @
     map Start (concat (map activities (entered fr))) @
     map Raise (raised fr)"

text \<open>Modelled from the spec: StateNode.ts is missing; (section 4.5, step 4) the assign actions of a step, in order, and
  the actions that stay.\<close>

fun assignsOf :: "ActionObject list \<Rightarrow> AssignAction list" where
  "assignsOf [] = []"
| "assignsOf (Assign a # rest) = a # assignsOf rest"
| "assignsOf (other # rest) = assignsOf rest"

text \<open>Modelled from the spec: StateNode.ts is missing; (section 4.5, step 4) the test that strips the assigns
  from the action list.\<close>

fun isAssign :: "ActionObject \<Rightarrow> bool" where
  "isAssign (Assign a) = True"
| "isAssign other = False"

text \<open>Modelled from the spec: StateNode.ts is missing; (section 4.5, step 5) send and log actions are evaluated against
  the new context and the event.\<close>

fun resolveAction :: "TContext \<Rightarrow> jsval \<Rightarrow> ActionObject \<Rightarrow> ResolvedAction" where
  "resolveAction ctx ev (Log l) = LogValue (label l) (expr l ctx ev)"
| "resolveAction ctx ev (Send a) = Plain (Send (resolveSend a ctx ev))"
| "resolveAction ctx ev other = Plain other"

text \<open>Modelled from the spec: StateNode.ts is missing; (section 4.5, step 8) the activity map after the exits and the
  entries.\<close>

definition activityDiff :: "Frontier \<Rightarrow> (string \<times> bool) list \<Rightarrow> (string \<times> bool) list" where
  "activityDiff fr acts =
     fold (\<lambda>a m. AList.update a True m) (concat (map activities (entered fr)))
       (fold (\<lambda>a m. AList.update a False m) (concat (map activities (exited fr))) acts)"

text \<open>Modelled from the spec: StateNode.ts is missing; (section 4.5, steps 3 to 8) the configuration a non-empty set of
  fired transitions leads to. The assigns are folded into the context once
  (\<open>updateContext\<close>), the other actions are resolved against that new context.\<close>

definition fire ::
  "FrontierFn \<Rightarrow> StateNode \<Rightarrow> Configuration \<Rightarrow> jsval \<Rightarrow> (StateNode \<times> TransitionDefinition) list
     \<Rightarrow> Configuration" where
  "fire frontier machine c ev fired =
     (let fr = frontierOf frontier machine c fired;
          collected = collectActions fr fired;
          ctx = (case updateContext (Some (context' c)) ev (assignsOf collected) of
                   Some updated \<Rightarrow> updated
                 | None \<Rightarrow> context' c);
          resolvedActions = map (resolveAction ctx ev) (filter (\<lambda>a. \<not> isAssign a) collected)
      in \<lparr> value' = nextValue fr, context' = ctx, event' = ev, history = nextHistory fr,
           actions' = resolvedActions, activities' = activityDiff fr (activities' c),
           changed = (nextValue fr \<noteq> value' c \<or> resolvedActions \<noteq> [] \<or> ctx \<noteq> context' c) \<rparr>)"

text \<open>Modelled from the spec: StateNode.ts is missing; (section 4.5, last paragraph) the step for an event of type
  \<open>eventType\<close>. With no selected transition and no enabled eventless transition the
  prior configuration is returned with the event updated and \<open>changed = false\<close>;
  otherwise the selected transitions fire, or the eventless ones when none is
  selected.\<close>

definition step ::
  "FrontierFn \<Rightarrow> StateNode \<Rightarrow> Configuration \<Rightarrow> jsval \<Rightarrow> string \<Rightarrow> Configuration" where
  "step frontier machine c ev eventType =
     (let selected = selectTransitions machine c ev eventType;
          eventless = enabledEventless machine c ev
      in if selected = [] \<and> eventless = [] then c \<lparr> event' := ev, changed := False \<rparr>
         else fire frontier machine c ev (if selected = [] then eventless else selected))"

text \<open>Modelled from the spec: StateNode.ts is missing; (section 6 and 7) \<open>Definition.transition(from, event)\<close>. The
  event type is resolved with \<open>getEventType\<close>, whose error is thrown on; an event
  whose type is not a string is an \<open>invalid_event\<close>. An error returns no
  configuration, and the prior one is a value that nothing changes.\<close>

definition transition ::
  "FrontierFn \<Rightarrow> StateNode \<Rightarrow> Configuration \<Rightarrow> jsval \<Rightarrow> js_error + Configuration" where
  "transition frontier machine c ev =
     (case getEventType ev of
        Inl err \<Rightarrow> Inl err
      | Inr (JString eventType) \<Rightarrow> Inr (step frontier machine c ev eventType)
      | Inr other \<Rightarrow>
          Inl (Error ''Events must be strings or objects with a string event.type property.''))"

text \<open>Modelled from the spec: StateNode.ts is missing; (section 4.5, step 2) the nodes entered from a node down, root
  first in document order: the initial child of a compound node, every region of a
  parallel node.\<close>

fun initialNodes :: "StateNode \<Rightarrow> StateNode list" where
  "initialNodes (StateNode i k kd ini chs tbl alw en ex acts) =
     StateNode i k kd ini chs tbl alw en ex acts #
     concat (map initialNodes
       (filter (\<lambda>child. kd = Parallel \<or> (kd = Compound \<and> ini = Some (key child))) chs))"

text \<open>Modelled from the spec: StateNode.ts is missing; (section 3) the value of the initial configuration below a node:
  a leaf string for an atomic child, a map for a compound or parallel one.\<close>

fun initialValueBelow :: "StateNode \<Rightarrow> StateValue" where
  "initialValueBelow (StateNode i k kd ini chs tbl alw en ex acts) =
     (case map (\<lambda>child. (key child, kind child, initialValueBelow child))
             (filter (\<lambda>child. kd = Parallel \<or> (kd = Compound \<and> ini = Some (key child))) chs) of
        [] \<Rightarrow> SVMap []
      | [(ck, ckd, cv)] \<Rightarrow>
          (if kd = Compound \<and> (ckd = Atomic \<or> ckd = Final) then SVString ck
           else SVMap [(ck, cv)])
      | regions \<Rightarrow> SVMap (map (\<lambda>(ck, ckd, cv). (ck, cv)) regions))"

text \<open>Modelled from the spec: StateNode.ts is missing; (section 6) \<open>Definition.initial_state\<close>, under the init event:
  the entry actions of the entered nodes and the starts of their activities, the
  assigns folded into the initial context.\<close>

definition initialState :: "StateNode \<Rightarrow> TContext \<Rightarrow> Configuration" where
  "initialState machine ctx0 =
     (let enteredNodes = initialNodes machine;
          collected = concat (map entry enteredNodes) @
                      map Start (concat (map activities enteredNodes));
          ctx = (case updateContext (Some ctx0) initEvent (assignsOf collected) of
                   Some updated \<Rightarrow> updated
                 | None \<Rightarrow> ctx0)
      in \<lparr> value' = initialValueBelow machine, context' = ctx, event' = initEvent,
           history = None,
           actions' = map (resolveAction ctx initEvent) (filter (\<lambda>a. \<not> isAssign a) collected),
           activities' = map (\<lambda>a. (a, True)) (concat (map activities enteredNodes)),
           changed = False \<rparr>)"

subsection \<open>The interpreter\<close>

text \<open>Modelled from the spec: interpreter.ts is missing; (section 6) a service is not started, running or
  stopped.\<close>

datatype Status = NotStarted | Running | Stopped

text \<open>Modelled from the spec: (section 5 and 6) the service of interpreter.ts: its status, the
  current configuration slot, what the logger has received, the cancellation table
  of the sends that are not delivered yet (by id), and the internal queue of raised
  events. The clock that delivers the pending sends is left out.\<close>

record Service =
  status :: Status
  state :: Configuration
  logged :: "jsval list"
  pending :: "(string \<times> SendAction) list"
  internalQueue :: "jsval list"

text \<open>Modelled from the spec: interpreter.ts is missing; ids are property keys of the cancellation table, so a
  number and its decimal string are the same key.\<close>

fun propertyKey :: "jsval \<Rightarrow> string" where
  "propertyKey (JString s) = s"
| "propertyKey (JNumber n) = numberToString n"
| "propertyKey JUndefined = ''undefined''"
| "propertyKey JNull = ''null''"
| "propertyKey (JBool b) = (if b then ''true'' else ''false'')"
| "propertyKey (JObject kvs) = ''[object Object]''"

text \<open>Modelled from the spec: interpreter.ts is missing; (section 4.6 and 5) executing one action: a log value goes to the
  logger, a send enters the cancellation table under its id, \<open>cancel(id)\<close> removes
  the pending send with that id, a raised event enters the internal queue; the other
  actions touch nothing of the service.\<close>

fun exec :: "ResolvedAction \<Rightarrow> Service \<Rightarrow> Service" where
  "exec (LogValue lbl v) sv = sv \<lparr> logged := logged sv @ [v] \<rparr>"
| "exec (Plain (Send a)) sv = sv \<lparr> pending := AList.update (propertyKey (id' a)) a (pending sv) \<rparr>"
| "exec (Plain (Cancel c)) sv = sv \<lparr> pending := AList.delete (propertyKey (sendId c)) (pending sv) \<rparr>"
| "exec (Plain (Raise e)) sv = sv \<lparr> internalQueue := internalQueue sv @ [e] \<rparr>"
| "exec (Plain other) sv = sv"

text \<open>Modelled from the spec: interpreter.ts is missing; (sections 2 and 5, scenario 8)
  the macrostep: a transition, the execution of its actions in order, then the raised
  events one by one until none remains. A configuration that has not changed (by
  step 8 it has no action for this step) is stored and nothing is executed: sending
  is a no-op when no transition matches. A machine that keeps raising events never
  returns: the value is \<open>None\<close>.\<close>

partial_function (option) macrostep ::
  "FrontierFn \<Rightarrow> StateNode \<Rightarrow> Service \<Rightarrow> jsval \<Rightarrow> (js_error + Service) option" where
  "macrostep frontier machine sv ev =
     (case transition frontier machine (state sv) ev of
        Inl err \<Rightarrow> Some (Inl err)
      | Inr c \<Rightarrow>
          (let sv' = (if changed c then fold exec (actions' c) (sv \<lparr> state := c \<rparr>)
                      else sv \<lparr> state := c \<rparr>)
           in case internalQueue sv' of
                [] \<Rightarrow> Some (Inr sv')
              | e # queue \<Rightarrow> macrostep frontier machine (sv' \<lparr> internalQueue := queue \<rparr>) e))"

text \<open>Modelled from the spec: interpreter.ts is missing; (section 6) \<open>interpret\<close> (a command name of the
  prover, hence the prime): a service that is not started, on the initial
  configuration.\<close>

definition interpret' :: "StateNode \<Rightarrow> TContext \<Rightarrow> Service" where
  "interpret' machine ctx0 =
     \<lparr> status = NotStarted, state = initialState machine ctx0, logged = [], pending = [],
       internalQueue = [] \<rparr>"

text \<open>Modelled from the spec: interpreter.ts is missing; (section 6) \<open>Service.start\<close>: the service runs and
  the actions of the initial configuration are executed.\<close>

definition start :: "Service \<Rightarrow> Service" where
  "start sv = fold exec (actions' (state sv)) (sv \<lparr> status := Running \<rparr>)"

text \<open>Modelled from the spec: interpreter.ts is missing; (section 6 and scenario 8) \<open>Service.send\<close>: sending
  to a service that is not started is an error; a stopped service ignores the
  event; a running one takes a macrostep.\<close>

definition service_send ::
  "FrontierFn \<Rightarrow> StateNode \<Rightarrow> Service \<Rightarrow> jsval \<Rightarrow> (js_error + Service) option" where
  "service_send frontier machine sv ev =
     (case status sv of
        NotStarted \<Rightarrow> Some (Inl (Error ''Event sent to uninitialized service''))
      | Stopped \<Rightarrow> Some (Inr sv)
      | Running \<Rightarrow> macrostep frontier machine sv ev)"

section \<open>The machines of the interpreter tests\<close>

text \<open>Modelled from the spec: StateNode.ts is missing; (section 4.2) the normalization \<open>Machine\<close> applies
  to a configuration: a shorthand target
  becomes a transition without actions or guard.\<close>

definition toTarget :: "string \<Rightarrow> TransitionDefinition" where
  "toTarget t = \<lparr> target = [t], actions = [], cond = None, internal = False \<rparr>"

text \<open>The action list of \<open>[send(event, options)]\<close> in a configuration (no action
  when \<open>send\<close> throws), and the options \<open>{delay: n}\<close>.\<close>

definition sendActions :: "jsval Expr \<Rightarrow> SendActionOptions option \<Rightarrow> ActionObject list" where
  "sendActions ev options = (case send ev options of Inr a \<Rightarrow> [Send a] | Inl err \<Rightarrow> [])"

definition delayOf :: "int \<Rightarrow> SendActionOptions" where
  "delayOf n = \<lparr> to = Static JUndefined, delay = Static (JNumber n), id' = JUndefined \<rparr>"

text \<open>
  \<open>lightMachine\<close> of the interpreter tests, normalized: the node ids are the
  dotted paths; \<open>after: {10: 'green'}\<close> on \<open>red\<close> is the entry action
  \<open>send(after(10, id), {delay: 10})\<close>, a transition on that event and the
  cancellation of the send on exit (sections 4.2 and 5 of the spec).
\<close>

definition lightMachine :: StateNode where
  "lightMachine =
     StateNode ''light'' ''light'' Compound (Some ''green'')
       [StateNode ''light.green'' ''green'' Atomic None []
          [(''TIMER'', [toTarget ''yellow'']),
           (''KEEP_GOING'',
              [\<lparr> target = [''green''], actions = [Cancel (cancel (JString ''TIMER''))],
                 cond = None, internal = True \<rparr>])]
          [] (sendActions (Static (JString ''TIMER'')) (Some (delayOf 10))) [] [],
        StateNode ''light.yellow'' ''yellow'' Atomic None []
          [(''TIMER'', [toTarget ''red''])]
          [] (sendActions (Static (JString ''TIMER'')) (Some (delayOf 10))) [] [],
        StateNode ''light.red'' ''red'' Atomic None []
          [(after (DelayMs 10) (Some ''light.red''), [toTarget ''green''])]
          []
          (sendActions (Static (JString (after (DelayMs 10) (Some ''light.red''))))
             (Some (delayOf 10)))
          [Cancel (cancel (JString (after (DelayMs 10) (Some ''light.red''))))] []]
       [] [] [] [] []"

text \<open>
  \<open>logMachine\<close> of the test of the log action: context \<open>{count: 0}\<close>, and on
  \<open>LOG\<close> a transition without target whose actions are \<open>assign({count: ctx =>
  ctx.count + 1})\<close> and \<open>log(ctx => ctx)\<close>.
\<close>

definition countPlusOne :: "TContext \<Rightarrow> jsval \<Rightarrow> jsval" where
  "countPlusOne ctx ev =
     (case map_of ctx ''count'' of Some (JNumber n) \<Rightarrow> JNumber (n + 1) | _ \<Rightarrow> JUndefined)"

definition logContext :: TContext where
  "logContext = [(''count'', JNumber 0)]"

definition logMachine :: StateNode where
  "logMachine =
     StateNode ''log'' ''log'' Compound (Some ''x'')
       [StateNode ''log.x'' ''x'' Atomic None []
          [(''LOG'',
              [\<lparr> target = [],
                 actions = [Assign (assign (PropertyAssigner [(''count'', PropFn countPlusOne)])),
                            Log (log (Some (\<lambda>ctx ev. JObject ctx)) None)],
                 cond = None, internal = False \<rparr>])]
          [] [] [] []]
       [] [] [] [] []"

text \<open>No offered transition of a node that is active in the configuration has a guard
  that holds.\<close>

definition noneMatches ::
  "(StateNode \<Rightarrow> TransitionDefinition list) \<Rightarrow> StateNode \<Rightarrow> Configuration \<Rightarrow> jsval \<Rightarrow> bool" where
  "noneMatches offered machine c ev =
     list_all (\<lambda>path.
        list_all (\<lambda>node. list_all (\<lambda>t. \<not> guardHolds (context' c) ev t) (offered node))
          (nodesOnPath machine path))
       (toStatePaths (value' c))"

text \<open>A frontier function for the closed instances below, where no external transition
  fires: it exits and enters nothing.\<close>

definition stayFrontier :: FrontierFn where
  "stayFrontier machine c fired =
     \<lparr> exited = [], entered = [], nextValue = value' c, nextHistory = history c, raised = [] \<rparr>"

chapter \<open>Theorems\<close>

section \<open>Association lists\<close>

lemma map_of_mapValues:
  "map_of (map (\<lambda>(ky, x). (ky, f ky x)) sts) k = map_option (f k) (map_of sts k)"
  by (induction sts) auto


section \<open>The light machine, started\<close>

lemma after_light_red: "after (DelayMs 10) (Some ''light.red'') = ''xstate.after(10)#light.red''"
  by (simp add: after_def ActionTypes_After_def numberToString_def digitsOf.simps)

lemma lightMachine_started:
  "status (start (interpret' lightMachine [])) = Running \<and>
   value' (state (start (interpret' lightMachine []))) = SVString ''green'' \<and>
   internalQueue (start (interpret' lightMachine [])) = [] \<and>
   map fst (pending (start (interpret' lightMachine []))) = [''TIMER'']"
  by (simp add: start_def interpret'_def initialState_def lightMachine_def sendActions_def
      send_def getEventType_def updateContext_def delayOf_def resolveSend_def Let_def)

lemma fold_exec_state: "state (fold exec as sv) = state sv"
proof (induction as arbitrary: sv)
  case Nil
  then show ?case by simp
next
  case (Cons a as)
  have "state (exec a sv) = state sv" by (cases "(a, sv)" rule: exec.cases) simp_all
  then show ?case using Cons by simp
qed

section \<open>An event that no transition matches\<close>

lemma selectRegion_none:
  "list_all (\<lambda>node. list_all (\<lambda>t. \<not> guardHolds ctx ev t) (offered node)) nodes \<Longrightarrow>
   selectRegion offered ctx ev nodes = None"
proof (induction nodes)
  case Nil
  then show ?case by simp
next
  case (Cons node nodes)
  then have "find (guardHolds ctx ev) (offered node) = None"
    by (simp add: find_None_iff list_all_iff)
  then show ?case using Cons by simp
qed

lemma map_filter_none:
  "list_all (\<lambda>x. f x = None) xs \<Longrightarrow> List.map_filter f xs = []"
  by (induction xs) simp_all

lemma selectWith_none:
  assumes "noneMatches offered machine c ev"
  shows "selectWith offered machine c ev = []"
proof -
  have "list_all (\<lambda>path. selectRegion offered (context' c) ev (rev (nodesOnPath machine path)) = None)
          (toStatePaths (value' c))"
    using assms unfolding noneMatches_def list_all_iff
    by (auto intro!: selectRegion_none simp: list_all_iff)
  then show ?thesis unfolding selectWith_def by (simp add: map_filter_none)
qed

text \<open>
  C1 (on the transition function modelled from the spec). When the event has a type,
  no transition offered for that type by a node active in \<open>c\<close> matches, and no
  eventless transition is enabled, \<open>transition c E\<close> returns \<open>c\<close> with the event
  updated and \<open>changed = false\<close>: the value, the context, the history, the actions
  and the activities are those of \<open>c\<close>.
\<close>

theorem transition_no_match:
  assumes "getEventType ev = Inr (JString eventType)"
    and "noneMatches (candidates eventType) machine c ev"
    and "noneMatches always machine c ev"
  shows "transition frontier machine c ev = Inr (c \<lparr> event' := ev, changed := False \<rparr>) \<and>
         value' (c \<lparr> event' := ev, changed := False \<rparr>) = value' c"
proof -
  have "selectTransitions machine c ev eventType = []"
    unfolding selectTransitions_def using assms(2) by (rule selectWith_none)
  moreover have "enabledEventless machine c ev = []"
    unfolding enabledEventless_def using assms(3) by (rule selectWith_none)
  ultimately show ?thesis using assms(1) by (simp add: transition_def step_def)
qed

lemma lightMachine_initial_value: "value' (initialState lightMachine []) = SVString ''green''"
  by (simp add: initialState_def lightMachine_def Let_def)

theorem transition_no_match_witness:
  "getEventType (JString ''SOME_EVENT'') = Inr (JString ''SOME_EVENT'') \<and>
   noneMatches (candidates ''SOME_EVENT'') lightMachine (initialState lightMachine [])
     (JString ''SOME_EVENT'') \<and>
   noneMatches always lightMachine (initialState lightMachine []) (JString ''SOME_EVENT'') \<and>
   transition stayFrontier lightMachine (initialState lightMachine []) (JString ''SOME_EVENT'')
     = Inr ((initialState lightMachine []) \<lparr> event' := JString ''SOME_EVENT'', changed := False \<rparr>) \<and>
   value' ((initialState lightMachine []) \<lparr> event' := JString ''SOME_EVENT'', changed := False \<rparr>)
     = SVString ''green'' \<and>
   service_send stayFrontier lightMachine (interpret' lightMachine []) (JString ''SOME_EVENT'')
     = Some (Inl (Error ''Event sent to uninitialized service'')) \<and>
   service_send stayFrontier lightMachine (start (interpret' lightMachine [])) (JString ''SOME_EVENT'')
     = Some (Inr ((start (interpret' lightMachine []))
          \<lparr> state := (initialState lightMachine [])
               \<lparr> event' := JString ''SOME_EVENT'', changed := False \<rparr> \<rparr>))"
proof -
  have t: "getEventType (JString ''SOME_EVENT'') = Inr (JString ''SOME_EVENT'')"
    by (simp add: getEventType_def)
  have n1: "noneMatches (candidates ''SOME_EVENT'') lightMachine (initialState lightMachine [])
              (JString ''SOME_EVENT'')"
    unfolding noneMatches_def lightMachine_initial_value
    by (simp add: lightMachine_def candidates_def after_light_red)
  have n2: "noneMatches always lightMachine (initialState lightMachine []) (JString ''SOME_EVENT'')"
    unfolding noneMatches_def lightMachine_initial_value
    by (simp add: lightMachine_def)
  note r = transition_no_match[OF t n1 n2, of stayFrontier]
  have st: "state (start (interpret' lightMachine [])) = initialState lightMachine []"
    by (simp add: start_def interpret'_def fold_exec_state)
  have u: "service_send stayFrontier lightMachine (interpret' lightMachine []) (JString ''SOME_EVENT'')
             = Some (Inl (Error ''Event sent to uninitialized service''))"
    by (simp add: service_send_def interpret'_def)
  have m: "macrostep stayFrontier lightMachine (start (interpret' lightMachine [])) (JString ''SOME_EVENT'')
             = Some (Inr ((start (interpret' lightMachine []))
                  \<lparr> state := (initialState lightMachine [])
                       \<lparr> event' := JString ''SOME_EVENT'', changed := False \<rparr> \<rparr>))"
    using lightMachine_started
    by (subst macrostep.simps) (simp add: st r)
  have s: "service_send stayFrontier lightMachine (start (interpret' lightMachine [])) (JString ''SOME_EVENT'')
             = Some (Inr ((start (interpret' lightMachine []))
                  \<lparr> state := (initialState lightMachine [])
                       \<lparr> event' := JString ''SOME_EVENT'', changed := False \<rparr> \<rparr>))"
    using lightMachine_started m by (simp add: service_send_def)
  show ?thesis
    using t n1 n2 r lightMachine_initial_value u s by simp
qed

section \<open>Round trip of paths and values\<close>




















section \<open>\<open>matchesState\<close> is the prefix relation on leaf paths\<close>
















section \<open>\<open>updateContext\<close> is a left fold of merges\<close>

lemma map_of_objectAssign_aux:
  "map_of (fold (\<lambda>(ky, v) tgt. AList.update ky v tgt) p acc) = map_of acc ++ map_of (rev p)"
proof (induction p arbitrary: acc)
  case Nil
  then show ?case by simp
next
  case (Cons kv p)
  obtain k v where kv: "kv = (k, v)" by (cases kv)
  have "map_of (AList.update k v acc) ++ map_of (rev p) = map_of acc ++ ([k \<mapsto> v] ++ map_of (rev p))"
    (is "?l = ?r")
  proof (rule ext)
    fix x show "?l x = ?r x"
      by (cases "map_of (rev p) x") (auto simp: AList.update_conv' map_add_def)
  qed
  then show ?case using Cons.IH[of "AList.update k v acc"] kv by simp
qed

lemma map_of_rev_distinct:
  assumes d: "distinct (map fst p)"
  shows "map_of (rev p) = map_of p"
proof (rule ext)
  fix x
  have d': "distinct (map fst (rev p))" using d by (simp add: rev_map[symmetric])
  show "map_of (rev p) x = map_of p x"
  proof (cases "map_of p x")
    case None
    then have "map_of (rev p) x = None" by (metis map_of_eq_None_iff set_rev)
    then show ?thesis using None by simp
  next
    case (Some y)
    then have "(x, y) \<in> set (rev p)" by (auto dest: map_of_SomeD)
    then have "map_of (rev p) x = Some y" using d' by (simp only: map_of_eq_Some_iff)
    then show ?thesis using Some by simp
  qed
qed

lemma map_of_objectAssign:
  "distinct (map fst p) \<Longrightarrow> map_of (objectAssign acc p) = map_of acc ++ map_of p"
  by (simp add: objectAssign_def map_of_objectAssign_aux map_of_rev_distinct)

lemma propertyAssigner_fold:
  "fold (\<lambda>(ky, pa) partialUpdate. AList.update ky (f pa) partialUpdate) props acc
     = fold (\<lambda>(ky, v) tgt. AList.update ky v tgt) (map (\<lambda>(ky, pa). (ky, f pa)) props) acc"
  by (induction props arbitrary: acc) auto

lemma fst_mapValues: "map fst (map (\<lambda>(ky, pa). (ky, f pa)) props) = map fst props"
  by (induction props) auto

lemma map_of_partialUpdate_props:
  assumes "distinct (map fst props)"
  shows "map_of (partialUpdateOf (PropertyAssigner props) acc ev) k =
           map_option (\<lambda>pa. case pa of PropFn g \<Rightarrow> g acc ev | PropValue v \<Rightarrow> v) (map_of props k)"
proof -
  let ?f = "\<lambda>pa. case pa of PropFn g \<Rightarrow> g acc ev | PropValue v \<Rightarrow> v"
  let ?p = "map (\<lambda>(ky, pa). (ky, ?f pa)) props"
  have d: "distinct (map fst ?p)" unfolding fst_mapValues using assms .
  have e: "partialUpdateOf (PropertyAssigner props) acc ev
             = fold (\<lambda>(ky, v) tgt. AList.update ky v tgt) ?p []"
    unfolding partialUpdateOf_def Assignment.case
    by (rule propertyAssigner_fold[of ?f props "[]"])
  have "map_of (partialUpdateOf (PropertyAssigner props) acc ev) = map_of [] ++ map_of (rev ?p)"
    unfolding e by (rule map_of_objectAssign_aux)
  also have "\<dots> = map_of ?p" using map_of_rev_distinct[OF d] by simp
  finally show ?thesis using map_of_mapValues[of "\<lambda>_. ?f" props k] by simp
qed

lemma distinct_fold_update:
  "distinct (map fst acc) \<Longrightarrow>
   distinct (map fst (fold (\<lambda>(ky, v) tgt. AList.update ky v tgt) p acc))"
  by (induction p arbitrary: acc) (auto simp: AList.distinct_update)


lemma distinct_partialUpdate_props:
  "distinct (map fst (partialUpdateOf (PropertyAssigner props) acc ev))"
proof -
  let ?f = "\<lambda>pa. case pa of PropFn g \<Rightarrow> g acc ev | PropValue v \<Rightarrow> v"
  have e: "partialUpdateOf (PropertyAssigner props) acc ev
             = fold (\<lambda>(ky, v) tgt. AList.update ky v tgt)
                 (map (\<lambda>(ky, pa). (ky, ?f pa)) props) []"
    unfolding partialUpdateOf_def Assignment.case
    by (rule propertyAssigner_fold[of ?f props "[]"])
  show ?thesis unfolding e by (rule distinct_fold_update) simp
qed

lemma updateContext_append:
  "updateContext (Some ctx) ev (as @ bs) = updateContext (updateContext (Some ctx) ev as) ev bs"
  by (simp add: updateContext_def)

text \<open>
  C4. \<open>updateContext\<close> folds the assign actions from the left (an undefined
  context is returned as it is): no action leaves the context as it is, and a list
  \<open>as @ bs\<close> is the update by \<open>bs\<close> of the result of \<open>as\<close>. One assigner
  function \<open>f\<close> is applied to the accumulator and its result is merged over the
  accumulator; one map of per-key assigners binds every key to its function applied
  to the accumulator, or to its literal, and that partial record is merged over the
  accumulator.
\<close>

theorem updateContext_fold:
  "updateContext None ev as = None \<and>
   updateContext (Some ctx) ev [] = Some ctx \<and>
   updateContext (Some ctx) ev (as @ bs) = updateContext (updateContext (Some ctx) ev as) ev bs \<and>
   (distinct (map fst (f ctx (if js_truthy ev then ev else initEvent))) \<longrightarrow>
      (\<exists>ctx'. updateContext (Some ctx) ev [assign (Assigner f)] = Some ctx' \<and>
         map_of ctx' = map_of ctx ++ map_of (f ctx (if js_truthy ev then ev else initEvent)))) \<and>
   (distinct (map fst props) \<longrightarrow>
      (\<exists>ctx'. updateContext (Some ctx) ev [assign (PropertyAssigner props)] = Some ctx' \<and>
         (\<forall>k. map_of ctx' k =
            (case map_of props k of
               None \<Rightarrow> map_of ctx k
             | Some (PropFn g) \<Rightarrow> Some (g ctx ev)
             | Some (PropValue v) \<Rightarrow> Some v))))"
proof (intro conjI impI)
  show "updateContext None ev as = None" by (simp add: updateContext_def)
  show "updateContext (Some ctx) ev [] = Some ctx" by (simp add: updateContext_def)
  show "updateContext (Some ctx) ev (as @ bs) = updateContext (updateContext (Some ctx) ev as) ev bs"
    by (rule updateContext_append)
next
  assume d: "distinct (map fst (f ctx (if js_truthy ev then ev else initEvent)))"
  show "\<exists>ctx'. updateContext (Some ctx) ev [assign (Assigner f)] = Some ctx' \<and>
         map_of ctx' = map_of ctx ++ map_of (f ctx (if js_truthy ev then ev else initEvent))"
    using map_of_objectAssign[OF d, of ctx]
    by (simp add: updateContext_def assign_def partialUpdateOf_def)
next
  assume d: "distinct (map fst props)"
  let ?p = "partialUpdateOf (PropertyAssigner props) ctx ev"
  have dp: "distinct (map fst ?p)" by (rule distinct_partialUpdate_props)
  have "map_of (objectAssign ctx ?p) k =
          (case map_of props k of
             None \<Rightarrow> map_of ctx k
           | Some (PropFn g) \<Rightarrow> Some (g ctx ev)
           | Some (PropValue v) \<Rightarrow> Some v)" for k
    unfolding map_of_objectAssign[OF dp] map_add_def map_of_partialUpdate_props[OF d]
    by (simp split: option.splits PropAssigner.splits)
  then show "\<exists>ctx'. updateContext (Some ctx) ev [assign (PropertyAssigner props)] = Some ctx' \<and>
         (\<forall>k. map_of ctx' k =
            (case map_of props k of
               None \<Rightarrow> map_of ctx k
             | Some (PropFn g) \<Rightarrow> Some (g ctx ev)
             | Some (PropValue v) \<Rightarrow> Some v))"
    by (simp add: updateContext_def assign_def)
qed

theorem updateContext_fold_witness:
  "distinct (map fst [(''count'', PropFn countPlusOne)]) \<and>
   (\<exists>ctx'. updateContext (Some logContext) (JString ''LOG'')
              [assign (PropertyAssigner [(''count'', PropFn countPlusOne)])] = Some ctx' \<and>
           map_of ctx' ''count'' = Some (JNumber 1)) \<and>
   distinct (map fst [(''seen'', JString ''LOG'')]) \<and>
   (\<exists>ctx'. updateContext (Some logContext) (JString ''LOG'')
              [assign (Assigner (\<lambda>ctx ev. [(''seen'', ev)]))] = Some ctx' \<and>
           map_of ctx' = map_of logContext ++ map_of [(''seen'', JString ''LOG'')])"
proof -
  note t = updateContext_fold[where ctx = logContext and ev = "JString ''LOG''"
      and f = "\<lambda>ctx ev. [(''seen'', ev)]" and props = "[(''count'', PropFn countPlusOne)]"
      and as = "[]" and bs = "[]"]
  have d1: "distinct (map fst [(''count'', PropFn countPlusOne)])" by simp
  have d2: "distinct (map fst [(''seen'', JString ''LOG'')])" by simp
  from t d1 obtain c1 where
    c1: "updateContext (Some logContext) (JString ''LOG'')
           [assign (PropertyAssigner [(''count'', PropFn countPlusOne)])] = Some c1"
    and k1: "\<forall>k. map_of c1 k =
            (case map_of [(''count'', PropFn countPlusOne)] k of
               None \<Rightarrow> map_of logContext k
             | Some (PropFn g) \<Rightarrow> Some (g logContext (JString ''LOG''))
             | Some (PropValue v) \<Rightarrow> Some v)"
    by blast
  have "map_of c1 ''count'' = Some (JNumber 1)"
    using k1[rule_format, of "''count''"] by (simp add: countPlusOne_def logContext_def)
  moreover from t d2 obtain c2 where
    "updateContext (Some logContext) (JString ''LOG'')
           [assign (Assigner (\<lambda>ctx ev. [(''seen'', ev)]))] = Some c2"
    and "map_of c2 = map_of logContext ++ map_of [(''seen'', JString ''LOG'')]"
    by auto
  ultimately show ?thesis using c1 d1 d2 by blast
qed

section \<open>Assign and log in one step\<close>

lemma logMachine_select:
  assumes "value' c = SVString ''x''"
  shows "selectTransitions logMachine c (JString ''LOG'') ''LOG'' =
           [(StateNode ''log.x'' ''x'' Atomic None []
               [(''LOG'',
                  [\<lparr> target = [],
                     actions = [Assign (assign (PropertyAssigner [(''count'', PropFn countPlusOne)])),
                                Log (log (Some (\<lambda>ctx ev. JObject ctx)) None)],
                     cond = None, internal = False \<rparr>])]
               [] [] [] [],
             \<lparr> target = [],
               actions = [Assign (assign (PropertyAssigner [(''count'', PropFn countPlusOne)])),
                          Log (log (Some (\<lambda>ctx ev. JObject ctx)) None)],
               cond = None, internal = False \<rparr>)]"
  using assms
  by (simp add: selectTransitions_def selectWith_def logMachine_def candidates_def
      guardHolds_def)

lemma logMachine_transition:
  assumes "value' c = SVString ''x''" and "context' c = [(''count'', JNumber n)]"
  shows "transition frontier logMachine c (JString ''LOG'') =
           Inr (c \<lparr> context' := [(''count'', JNumber (n + 1))],
                    event' := JString ''LOG'',
                    actions' := [LogValue None (JObject [(''count'', JNumber (n + 1))])],
                    changed := True \<rparr>)"
proof -
  have "step frontier logMachine c (JString ''LOG'') ''LOG'' =
          c \<lparr> context' := [(''count'', JNumber (n + 1))],
              event' := JString ''LOG'',
              actions' := [LogValue None (JObject [(''count'', JNumber (n + 1))])],
              changed := True \<rparr>"
    unfolding step_def logMachine_select[OF assms(1)]
    using assms
    by (simp add: fire_def frontierOf_def isInternal_def collectActions_def
        updateContext_def assign_def partialUpdateOf_def objectAssign_def countPlusOne_def
        log_def activityDiff_def Let_def)
  then show ?thesis by (simp add: transition_def getEventType_def)
qed

lemma logMachine_macrostep:
  assumes "value' (state sv) = SVString ''x''" and "context' (state sv) = [(''count'', JNumber n)]"
    and "internalQueue sv = []"
  shows "macrostep frontier logMachine sv (JString ''LOG'') =
           Some (Inr (sv \<lparr> state := (state sv) \<lparr> context' := [(''count'', JNumber (n + 1))],
                                 event' := JString ''LOG'',
                                 actions' := [LogValue None (JObject [(''count'', JNumber (n + 1))])],
                                 changed := True \<rparr>,
                           logged := logged sv @ [JObject [(''count'', JNumber (n + 1))]] \<rparr>))"
  by (subst macrostep.simps) (simp add: logMachine_transition[OF assms(1,2)] assms(3))

lemma logMachine_started:
  "status (start (interpret' logMachine logContext)) = Running \<and>
   value' (state (start (interpret' logMachine logContext))) = SVString ''x'' \<and>
   context' (state (start (interpret' logMachine logContext))) = [(''count'', JNumber 0)] \<and>
   internalQueue (start (interpret' logMachine logContext)) = [] \<and>
   logged (start (interpret' logMachine logContext)) = []"
  by (simp add: start_def interpret'_def initialState_def logMachine_def logContext_def
      updateContext_def Let_def)

text \<open>
  C5 (on the transition function and the interpreter modelled from the spec). For the
  machine with context \<open>{count: 0}\<close> whose \<open>LOG\<close> event fires \<open>[assign(count =
  count + 1), log(ctx => ctx)]\<close>, a started service that receives two \<open>LOG\<close>
  events has logged \<open>{count: 1}\<close> and then \<open>{count: 2}\<close>: the log expression of a
  step sees the context the assign of that step has produced.
\<close>

theorem log_after_assign:
  "\<exists>sv1 sv2.
     service_send frontier logMachine (start (interpret' logMachine logContext)) (JString ''LOG'')
       = Some (Inr sv1) \<and>
     service_send frontier logMachine sv1 (JString ''LOG'') = Some (Inr sv2) \<and>
     actions' (state sv1) = [LogValue None (JObject [(''count'', JNumber 1)])] \<and>
     logged sv1 = [JObject [(''count'', JNumber 1)]] \<and>
     logged sv2 = [JObject [(''count'', JNumber 1)], JObject [(''count'', JNumber 2)]]"
proof -
  let ?sv0 = "start (interpret' logMachine logContext)"
  let ?sv1 = "?sv0 \<lparr> state := (state ?sv0) \<lparr> context' := [(''count'', JNumber (0 + 1))],
                                 event' := JString ''LOG'',
                                 actions' := [LogValue None (JObject [(''count'', JNumber (0 + 1))])],
                                 changed := True \<rparr>,
                     logged := logged ?sv0 @ [JObject [(''count'', JNumber (0 + 1))]] \<rparr>"
  let ?sv2 = "?sv1 \<lparr> state := (state ?sv1) \<lparr> context' := [(''count'', JNumber (1 + 1))],
                                 event' := JString ''LOG'',
                                 actions' := [LogValue None (JObject [(''count'', JNumber (1 + 1))])],
                                 changed := True \<rparr>,
                     logged := logged ?sv1 @ [JObject [(''count'', JNumber (1 + 1))]] \<rparr>"
  note s0 = logMachine_started
  have m1: "macrostep frontier logMachine ?sv0 (JString ''LOG'') = Some (Inr ?sv1)"
    using s0 by (intro logMachine_macrostep) simp_all
  have s1: "status ?sv1 = Running" "value' (state ?sv1) = SVString ''x''"
    "context' (state ?sv1) = [(''count'', JNumber 1)]" "internalQueue ?sv1 = []"
    using s0 by simp_all
  have m2: "macrostep frontier logMachine ?sv1 (JString ''LOG'') = Some (Inr ?sv2)"
    using s1 by (intro logMachine_macrostep) simp_all
  have r1: "service_send frontier logMachine ?sv0 (JString ''LOG'') = Some (Inr ?sv1)"
    using s0 m1 by (simp add: service_send_def)
  have r2: "service_send frontier logMachine ?sv1 (JString ''LOG'') = Some (Inr ?sv2)"
    using s1(1) m2 by (simp add: service_send_def)
  have l: "actions' (state ?sv1) = [LogValue None (JObject [(''count'', JNumber 1)])]"
    "logged ?sv1 = [JObject [(''count'', JNumber 1)]]"
    "logged ?sv2 = [JObject [(''count'', JNumber 1)], JObject [(''count'', JNumber 2)]]"
    using s0 by simp_all
  show ?thesis using r1 r2 l by blast
qed

section \<open>What \<open>updateHistoryValue\<close> remembers\<close>








section \<open>The built-in events \<open>done\<close> and \<open>after\<close>\<close>

text \<open>
  C7. For every node id, \<open>done(id)\<close> is an event object whose type is
  \<open>done.state.\<close> followed by the id, and whose \<open>toString\<close> returns that type.
\<close>

theorem done_event_type:
  "type (done_event ident d) = ''done.state.'' @ ident \<and>
   toString (done_event ident d) () = type (done_event ident d)"
  by (simp add: done_event_def ActionTypes_DoneState_def Let_def)

text \<open>
  C8. \<open>after(N, id)\<close> depends on its two arguments only: equal arguments give the
  same string, which is \<open>xstate.after(N)#id\<close> for a non-empty id and
  \<open>xstate.after(N)\<close> for an absent one. A send of that event type with no id of
  its own carries the string as its id, and \<open>cancel\<close> of the string names the same
  id.
\<close>

theorem after_stable:
  "(n = n' \<and> i = i' \<longrightarrow> after n i = after n' i') \<and>
   (ident \<noteq> [] \<longrightarrow>
      after n (Some ident) = ''xstate.after('' @ delayToString n @ '')#'' @ ident) \<and>
   after n None = ''xstate.after('' @ delayToString n @ '')'' \<and>
   (\<exists>a. send (Static (JString (after n i))) None = Inr a \<and>
        id' a = JString (after n i) \<and>
        sendId (cancel (JString (after n i))) = id' a)"
  by (auto simp: after_def ActionTypes_After_def send_def getEventType_def cancel_def)

theorem after_stable_witness:
  "''light.red'' \<noteq> [] \<and>
   after (DelayMs 10) (Some ''light.red'') = ''xstate.after(10)#light.red'' \<and>
   after (DelayMs 10) None = ''xstate.after(10)''"
proof -
  have r: "delayToString (DelayMs 10) = ''10''"
    by (simp add: numberToString_def digitsOf.simps)
  have "''light.red'' \<noteq> []" by simp
  then show ?thesis
    using after_stable[of "DelayMs 10" "DelayMs 10" None None "''light.red''"] r by simp
qed

section \<open>The id of a send action and its cancellation\<close>








section \<open>Invalid events\<close>

text \<open>
  C9 as stated fails at a number: \<open>5\<close> is neither a string nor an object with a
  string type, and \<open>getEventType\<close> returns the string \<open>5\<close> for it without
  throwing.
\<close>

theorem getEventType_number_counterexample:
  "\<not> hasStringType (JNumber 5) \<and> getEventType (JNumber 5) = Inr (JString ''5'')"
  by (simp add: getEventType_def numberToString_def digitsOf.simps)

text \<open>
  C9, amended. For \<open>undefined\<close> and \<open>null\<close>, \<open>getEventType\<close> throws the error of
  its \<open>catch\<close> block, and whenever \<open>getEventType\<close> throws, \<open>transition\<close> (modelled
  from the spec) throws the same error and returns no configuration. A string
  resolves to itself, an object with a string \<open>type\<close> to that type, and a number is
  accepted: it resolves to its decimal string.
\<close>

theorem getEventType_throws:
  "getEventType JUndefined =
     Inl (Error ''Events must be strings or objects with a string event.type property.'') \<and>
   getEventType JNull =
     Inl (Error ''Events must be strings or objects with a string event.type property.'') \<and>
   (getEventType ev = Inl err \<longrightarrow> transition frontier machine c ev = Inl err) \<and>
   getEventType (JString s) = Inr (JString s) \<and>
   (map_of kvs ''type'' = Some (JString t) \<longrightarrow> getEventType (JObject kvs) = Inr (JString t)) \<and>
   getEventType (JNumber n) = Inr (JString (numberToString n))"
  by (simp add: getEventType_def transition_def)

theorem getEventType_throws_witness:
  "getEventType JNull =
     Inl (Error ''Events must be strings or objects with a string event.type property.'') \<and>
   transition stayFrontier lightMachine (initialState lightMachine []) JNull =
     Inl (Error ''Events must be strings or objects with a string event.type property.'') \<and>
   map_of [(''type'', JString ''TIMER''), (''elapsed'', JNumber 10)] ''type'' = Some (JString ''TIMER'') \<and>
   getEventType (JObject [(''type'', JString ''TIMER''), (''elapsed'', JNumber 10)])
     = Inr (JString ''TIMER'')"
  using getEventType_throws[of JNull
      "Error ''Events must be strings or objects with a string event.type property.''"
      stayFrontier lightMachine "initialState lightMachine []" "''x''"
      "[(''type'', JString ''TIMER''), (''elapsed'', JNumber 10)]" "''TIMER''" 0]
  by simp

end
